theory Spec2Isabelle
  imports Main "HOL-Library.Sublist"
begin

section \<open>Python values\<close>

subsection \<open>Strings\<close>

text \<open>
  A Python \<open>str\<close> is a sequence of Unicode code points, so a string is a list of
  natural numbers here and \<open>length\<close> counts what Python's \<open>len\<close> counts.
  \<open>str\<close> turns an ASCII literal of the theory into such a string.
\<close>

type_synonym pystr = "nat list"

definition str :: "string \<Rightarrow> pystr" where
  "str cs = map of_char cs"

text \<open>The characters \<open>str.isspace\<close> accepts; \<open>str.strip()\<close> removes exactly these.\<close>

definition isspace :: "nat \<Rightarrow> bool" where
  "isspace c \<longleftrightarrow>
     (9 \<le> c \<and> c \<le> 13) \<or> (28 \<le> c \<and> c \<le> 32) \<or> c = 133 \<or> c = 160 \<or> c = 5760 \<or>
     (8192 \<le> c \<and> c \<le> 8202) \<or> c = 8232 \<or> c = 8233 \<or> c = 8239 \<or> c = 8287 \<or> c = 12288"

definition lstrip :: "pystr \<Rightarrow> pystr" where
  "lstrip s = dropWhile isspace s"

definition rstrip :: "pystr \<Rightarrow> pystr" where
  "rstrip s = rev (dropWhile isspace (rev s))"

definition strip :: "pystr \<Rightarrow> pystr" where
  "strip s = rstrip (lstrip s)"

text \<open>\<open>s.startswith(p)\<close> is \<^const>\<open>prefix\<close>; \<open>sub in s\<close> on strings is substring search.\<close>

fun contains :: "pystr \<Rightarrow> pystr \<Rightarrow> bool" where
  "contains sub [] = (sub = [])"
| "contains sub (c # cs) = (prefix sub (c # cs) \<or> contains sub cs)"

text \<open>
  The slice \<open>s[i:-j]\<close> for \<open>j > 0\<close>: Python clips both bounds to the string, so a
  string shorter than \<open>i + j\<close> gives the empty string, as the truncating
  subtraction does here.
\<close>

definition slice :: "nat \<Rightarrow> nat \<Rightarrow> pystr \<Rightarrow> pystr" where
  "slice i j s = drop i (take (length s - j) s)"

subsection \<open>JSON values and exceptions\<close>

text \<open>
  What \<open>json.loads\<close> can return. A \<open>dict\<close> keeps its keys in insertion order and
  holds each key once, so it is an association list that \<open>dict_set\<close> updates in
  place. \<open>JFloat t\<close> is the float Python reads from the number literal \<open>t\<close>
  (or from \<open>NaN\<close>, \<open>Infinity\<close>, \<open>-Infinity\<close>).
\<close>

datatype json =
    JNull
  | JBool bool
  | JInt int
  | JFloat pystr
  | JStr pystr
  | JArr "json list"
  | JObj "(pystr \<times> json) list"

text \<open>
  An exception with its \<open>str(e)\<close>. \<open>parse_ai_response\<close> tells only
  \<open>json.JSONDecodeError\<close> from every other \<open>Exception\<close>.
\<close>

datatype exn = JSONDecodeError pystr | OtherException pystr

fun type_name :: "json \<Rightarrow> pystr" where
  "type_name JNull = str ''NoneType''"
| "type_name (JBool _) = str ''bool''"
| "type_name (JInt _) = str ''int''"
| "type_name (JFloat _) = str ''float''"
| "type_name (JStr _) = str ''str''"
| "type_name (JArr _) = str ''list''"
| "type_name (JObj _) = str ''dict''"

fun dict_set :: "pystr \<Rightarrow> json \<Rightarrow> (pystr \<times> json) list \<Rightarrow> (pystr \<times> json) list" where
  "dict_set k v [] = [(k, v)]"
| "dict_set k v ((k', v') # kvs) =
     (if k' = k then (k', v) # kvs else (k', v') # dict_set k v kvs)"

text \<open>\<open>key in d\<close>: key lookup on a dict, element equality on a list, substring
  search on a string, a \<open>TypeError\<close> on everything else.\<close>

fun py_in :: "pystr \<Rightarrow> json \<Rightarrow> exn + bool" where
  "py_in k (JObj kvs) = Inr (k \<in> set (map fst kvs))"
| "py_in k (JArr xs) = Inr (JStr k \<in> set xs)"
| "py_in k (JStr s) = Inr (contains k s)"
| "py_in k v = Inl (OtherException
     (str ''argument of type '' @ [39] @ type_name v @ [39] @ str '' is not iterable''))"

text \<open>\<open>d[key] = v\<close> with a string key.\<close>

fun py_setitem :: "json \<Rightarrow> pystr \<Rightarrow> json \<Rightarrow> exn + json" where
  "py_setitem (JObj kvs) k v = Inr (JObj (dict_set k v kvs))"
| "py_setitem (JArr xs) k v = Inl (OtherException
     (str ''list indices must be integers or slices, not str''))"
| "py_setitem d k v = Inl (OtherException
     ([39] @ type_name d @ [39] @ str '' object does not support item assignment''))"

text \<open>\<open>d[key]\<close> with a string key.\<close>

fun py_getitem :: "json \<Rightarrow> pystr \<Rightarrow> exn + json" where
  "py_getitem (JObj kvs) k =
     (case map_of kvs k of
        Some v \<Rightarrow> Inr v
      | None \<Rightarrow> Inl (OtherException ([39] @ k @ [39])))"
| "py_getitem (JArr xs) k = Inl (OtherException
     (str ''list indices must be integers or slices, not str''))"
| "py_getitem (JStr s) k = Inl (OtherException
     (str ''string indices must be integers, not '' @ [39] @ str ''str'' @ [39]))"
| "py_getitem d k = Inl (OtherException
     ([39] @ type_name d @ [39] @ str '' object is not subscriptable''))"

text \<open>Reading a field of a result the way a template does: absent on anything
  that is not a dict.\<close>

fun field :: "json \<Rightarrow> pystr \<Rightarrow> json option" where
  "field (JObj kvs) k = map_of kvs k"
| "field _ k = None"

section \<open>The response normalizer: \<open>parse_ai_response\<close>\<close>

definition expected_keys :: "pystr list" where
  "expected_keys = [str ''syntax_errors'', str ''logical_errors'', str ''key_improvements'',
     str ''fixed_code'', str ''explanation'']"

text \<open>\<open>[] if "errors" in key or "improvements" in key else ""\<close>\<close>

definition default_for :: "pystr \<Rightarrow> json" where
  "default_for key =
     (if contains (str ''errors'') key \<or> contains (str ''improvements'') key
      then JArr [] else JStr [])"

text \<open>The loop over \<open>expected_keys\<close>; it stops at the first exception.\<close>

fun fill_defaults :: "pystr list \<Rightarrow> json \<Rightarrow> exn + json" where
  "fill_defaults [] parsed_data = Inr parsed_data"
| "fill_defaults (key # keys) parsed_data =
     (case py_in key parsed_data of
        Inl e \<Rightarrow> Inl e
      | Inr True \<Rightarrow> fill_defaults keys parsed_data
      | Inr False \<Rightarrow>
          (case py_setitem parsed_data key (default_for key) of
             Inl e \<Rightarrow> Inl e
           | Inr parsed_data' \<Rightarrow> fill_defaults keys parsed_data'))"

text \<open>Trimming and the removal of the code fence: the text \<open>json.loads\<close> is given.\<close>

definition fence_json :: pystr where
  "fence_json = [96, 96, 96] @ str ''json''"

definition fence :: pystr where
  "fence = [96, 96, 96]"

definition clean_content :: "pystr \<Rightarrow> pystr" where
  "clean_content ai_output =
     (let content = strip ai_output in
      if prefix fence_json content then strip (slice 7 3 content)
      else if prefix fence content then strip (slice 3 3 content)
      else content)"

text \<open>The dict both \<open>except\<close> branches build; \<open>raw\<close> is \<open>ai_output\<close> itself.\<close>

definition error_result :: "pystr \<Rightarrow> pystr option \<Rightarrow> json" where
  "error_result msg ai_output = JObj
     [(str ''error'', JStr msg),
      (str ''raw'', (case ai_output of None \<Rightarrow> JNull | Some s \<Rightarrow> JStr s)),
      (str ''syntax_errors'', JArr []),
      (str ''logical_errors'', JArr []),
      (str ''key_improvements'', JArr []),
      (str ''fixed_code'', JStr []),
      (str ''explanation'', JStr [])]"

text \<open>
  The body of the \<open>try\<close>. \<open>loads\<close> stands for \<open>json.loads\<close>, which is not code of
  this repository: the text it is given decides whether it returns a value or
  raises. \<open>ai_output\<close> is the message content of the model's reply, a string or
  \<open>None\<close>; \<open>None.strip()\<close> raises an \<open>AttributeError\<close>.
\<close>

definition try_body :: "(pystr \<Rightarrow> exn + json) \<Rightarrow> pystr option \<Rightarrow> exn + json" where
  "try_body loads ai_output =
     (case ai_output of
        None \<Rightarrow> Inl (OtherException
          ([39] @ str ''NoneType'' @ [39] @ str '' object has no attribute '' @ [39] @ str ''strip'' @ [39]))
      | Some s \<Rightarrow>
          (case loads (clean_content s) of
             Inl e \<Rightarrow> Inl e
           | Inr parsed_data \<Rightarrow> fill_defaults expected_keys parsed_data))"

definition parse_ai_response :: "(pystr \<Rightarrow> exn + json) \<Rightarrow> pystr option \<Rightarrow> json" where
  "parse_ai_response loads ai_output =
     (case try_body loads ai_output of
        Inr parsed_data \<Rightarrow> parsed_data
      | Inl (JSONDecodeError m) \<Rightarrow>
          error_result (str ''Failed to parse AI response as JSON: '' @ m) ai_output
      | Inl (OtherException m) \<Rightarrow>
          error_result (str ''Unexpected error: '' @ m) ai_output)"


section \<open>A model of \<open>json.loads\<close>\<close>

function show_nat :: "nat \<Rightarrow> pystr" where
  "show_nat n = (if n < 10 then [48 + n] else show_nat (n div 10) @ [48 + n mod 10])"
  by pat_completeness auto
termination
  by (relation "measure id") auto

definition is_ws :: "nat \<Rightarrow> bool" where
  "is_ws c \<longleftrightarrow> c = 32 \<or> c = 9 \<or> c = 10 \<or> c = 13"

definition skip_ws :: "pystr \<Rightarrow> pystr" where
  "skip_ws r = dropWhile is_ws r"

definition is_digit :: "nat \<Rightarrow> bool" where
  "is_digit c \<longleftrightarrow> 48 \<le> c \<and> c \<le> 57"

definition nat_of_digits :: "pystr \<Rightarrow> nat" where
  "nat_of_digits ds = foldl (\<lambda>a d. 10 * a + (d - 48)) 0 ds"

datatype 'a scanned = Ok 'a pystr | DecodeErr pystr nat | ValueErr pystr

definition hexval :: "nat \<Rightarrow> nat option" where
  "hexval c =
     (if 48 \<le> c \<and> c \<le> 57 then Some (c - 48)
      else if 97 \<le> c \<and> c \<le> 102 then Some (c - 87)
      else if 65 \<le> c \<and> c \<le> 70 then Some (c - 55)
      else None)"

fun hex4 :: "pystr \<Rightarrow> nat option" where
  "hex4 [a, b, c, d] =
     (case (hexval a, hexval b, hexval c, hexval d) of
        (Some x, Some y, Some z, Some w) \<Rightarrow> Some (((x * 16 + y) * 16 + z) * 16 + w)
      | _ \<Rightarrow> None)"
| "hex4 _ = None"

definition backslash :: "nat \<Rightarrow> nat option" where
  "backslash e =
     (if e = 34 then Some 34 else if e = 92 then Some 92 else if e = 47 then Some 47
      else if e = 98 then Some 8 else if e = 102 then Some 12 else if e = 110 then Some 10
      else if e = 114 then Some 13 else if e = 116 then Some 9 else None)"

definition unterminated :: pystr where
  "unterminated = str ''Unterminated string starting at''"

definition invalid_escape :: pystr where
  "invalid_escape = str ''Invalid '' @ [92] @ str ''escape''"

definition invalid_uXXXX :: pystr where
  "invalid_uXXXX = str ''Invalid '' @ [92] @ str ''uXXXX escape''"

fun scanstring :: "nat \<Rightarrow> pystr \<Rightarrow> pystr \<Rightarrow> pystr scanned" where
  "scanstring begin acc [] = DecodeErr unterminated begin"
| "scanstring begin acc (c # r) =
     (if c = 34 then Ok (rev acc) r
      else if c = 92 then
        (case r of
           [] \<Rightarrow> DecodeErr unterminated begin
         | e # r' \<Rightarrow>
             if e \<noteq> 117 then
               (case backslash e of
                  None \<Rightarrow> DecodeErr invalid_escape (Suc (length r))
                | Some ch \<Rightarrow> scanstring begin (ch # acc) r')
             else if length r' < 5 then DecodeErr invalid_uXXXX (length r)
             else
               (case hex4 (take 4 r') of
                  None \<Rightarrow> DecodeErr invalid_uXXXX (length r)
                | Some u \<Rightarrow>
                    if 55296 \<le> u \<and> u \<le> 56319 \<and> 6 < length (drop 4 r')
                       \<and> take 2 (drop 4 r') = [92, 117]
                    then
                      (case hex4 (take 4 (drop 6 r')) of
                         None \<Rightarrow> DecodeErr invalid_uXXXX (length r' - 5)
                       | Some u2 \<Rightarrow>
                           if 56320 \<le> u2 \<and> u2 \<le> 57343
                           then scanstring begin
                                  ((65536 + (u - 55296) * 1024 + (u2 - 56320)) # acc) (drop 10 r')
                           else scanstring begin (u # acc) (drop 4 r'))
                    else scanstring begin (u # acc) (drop 4 r')))
      else if c \<le> 31 then DecodeErr (str ''Invalid control character at'') (Suc (length r))
      else scanstring begin (c # acc) r)"

definition match_int :: "pystr \<Rightarrow> (pystr \<times> pystr) option" where
  "match_int r =
     (case r of
        [] \<Rightarrow> None
      | c # t \<Rightarrow>
          if 49 \<le> c \<and> c \<le> 57 then Some (c # takeWhile is_digit t, dropWhile is_digit t)
          else if c = 48 then Some ([48], t)
          else None)"

definition match_frac :: "pystr \<Rightarrow> pystr \<times> pystr" where
  "match_frac r =
     (if prefix [46] r \<and> takeWhile is_digit (tl r) \<noteq> []
      then (46 # takeWhile is_digit (tl r), dropWhile is_digit (tl r))
      else ([], r))"

definition match_exp :: "pystr \<Rightarrow> pystr \<times> pystr" where
  "match_exp r =
     (if prefix [101] r \<or> prefix [69] r then
        (let t = tl r;
             sign = (if prefix [45] t \<or> prefix [43] t then take 1 t else []);
             t' = drop (length sign) t
         in if takeWhile is_digit t' = [] then ([], r)
            else (hd r # sign @ takeWhile is_digit t', dropWhile is_digit t'))
      else ([], r))"

definition match_number :: "pystr \<Rightarrow> (pystr \<times> pystr \<times> pystr) option" where
  "match_number r =
     (let sign = (if prefix [45] r then [45] else []) in
      case match_int (drop (length sign) r) of
        None \<Rightarrow> None
      | Some (ip, r1) \<Rightarrow>
          (case match_frac r1 of (fp, r2) \<Rightarrow>
           case match_exp r2 of (ep, r3) \<Rightarrow> Some (sign @ ip, fp @ ep, r3)))"

definition parse_int :: "pystr \<Rightarrow> pystr \<Rightarrow> json scanned" where
  "parse_int lit r =
     (let ds = (if prefix [45] lit then tl lit else lit) in
      if 4300 < length ds then ValueErr
        (str ''Exceeds the limit (4300 digits) for integer string conversion: value has ''
           @ show_nat (length ds)
           @ str '' digits; use sys.set_int_max_str_digits() to increase the limit'')
      else Ok (JInt (if prefix [45] lit then - int (nat_of_digits ds) else int (nat_of_digits ds))) r)"

definition expecting_value :: pystr where
  "expecting_value = str ''Expecting value''"

definition expecting_comma :: pystr where
  "expecting_comma = str ''Expecting '' @ [39, 44, 39] @ str '' delimiter''"

definition expecting_colon :: pystr where
  "expecting_colon = str ''Expecting '' @ [39, 58, 39] @ str '' delimiter''"

definition expecting_name :: pystr where
  "expecting_name = str ''Expecting property name enclosed in double quotes''"

fun scan_once :: "nat \<Rightarrow> pystr \<Rightarrow> json scanned"
and parse_array :: "nat \<Rightarrow> json list \<Rightarrow> pystr \<Rightarrow> json scanned"
and parse_object :: "nat \<Rightarrow> (pystr \<times> json) list \<Rightarrow> pystr \<Rightarrow> json scanned" where
  "scan_once 0 r = ValueErr (str ''maximum recursion depth exceeded'')"
| "scan_once (Suc n) r =
     (case r of
        [] \<Rightarrow> DecodeErr expecting_value 0
      | c # t \<Rightarrow>
          if c = 34 then
            (case scanstring (length r) [] t of
               Ok s r' \<Rightarrow> Ok (JStr s) r'
             | DecodeErr m k \<Rightarrow> DecodeErr m k
             | ValueErr m \<Rightarrow> ValueErr m)
          else if c = 123 then
            (if prefix [125] (skip_ws t) then Ok (JObj []) (tl (skip_ws t))
             else parse_object n [] (skip_ws t))
          else if c = 91 then
            (if prefix [93] (skip_ws t) then Ok (JArr []) (tl (skip_ws t))
             else parse_array n [] (skip_ws t))
          else if prefix (str ''null'') r then Ok JNull (drop 4 r)
          else if prefix (str ''true'') r then Ok (JBool True) (drop 4 r)
          else if prefix (str ''false'') r then Ok (JBool False) (drop 5 r)
          else if prefix (str ''NaN'') r then Ok (JFloat (str ''NaN'')) (drop 3 r)
          else if prefix (str ''Infinity'') r then Ok (JFloat (str ''Infinity'')) (drop 8 r)
          else if prefix (str ''-Infinity'') r then Ok (JFloat (str ''-Infinity'')) (drop 9 r)
          else
            (case match_number r of
               None \<Rightarrow> DecodeErr expecting_value (length r)
             | Some (ip, fe, r') \<Rightarrow>
                 if fe = [] then parse_int ip r' else Ok (JFloat (ip @ fe)) r'))"
| "parse_array 0 values r = ValueErr (str ''maximum recursion depth exceeded'')"
| "parse_array (Suc n) values r =
     (case scan_once n r of
        DecodeErr m k \<Rightarrow> DecodeErr m k
      | ValueErr m \<Rightarrow> ValueErr m
      | Ok val r1 \<Rightarrow>
          (case skip_ws r1 of
             [] \<Rightarrow> DecodeErr expecting_comma 0
           | c # t \<Rightarrow>
               if c = 93 then Ok (JArr (values @ [val])) t
               else if c \<noteq> 44 then DecodeErr expecting_comma (Suc (length t))
               else parse_array n (values @ [val]) (skip_ws t)))"
| "parse_object 0 pairs r = ValueErr (str ''maximum recursion depth exceeded'')"
| "parse_object (Suc n) pairs r =
     (case r of
        [] \<Rightarrow> DecodeErr expecting_name 0
      | q # t \<Rightarrow>
          if q \<noteq> 34 then DecodeErr expecting_name (length r)
          else
            (case scanstring (length r) [] t of
               DecodeErr m k \<Rightarrow> DecodeErr m k
             | ValueErr m \<Rightarrow> ValueErr m
             | Ok key r1 \<Rightarrow>
                 if \<not> prefix [58] (skip_ws r1)
                 then DecodeErr expecting_colon (length (skip_ws r1))
                 else
                   (case scan_once n (skip_ws (tl (skip_ws r1))) of
                      DecodeErr m k \<Rightarrow> DecodeErr m k
                    | ValueErr m \<Rightarrow> ValueErr m
                    | Ok val r2 \<Rightarrow>
                        (case skip_ws r2 of
                           [] \<Rightarrow> DecodeErr expecting_comma 0
                         | c # t' \<Rightarrow>
                             if c = 125 then Ok (JObj (dict_set key val pairs)) t'
                             else if c \<noteq> 44 then DecodeErr expecting_comma (Suc (length t'))
                             else parse_object n (dict_set key val pairs) (skip_ws t')))))"

definition errmsg :: "pystr \<Rightarrow> pystr \<Rightarrow> nat \<Rightarrow> pystr" where
  "errmsg msg doc pos =
     (let seen = take pos doc;
          lineno = length (filter (\<lambda>c. c = 10) seen) + 1;
          colno = length (takeWhile (\<lambda>c. c \<noteq> 10) (rev seen)) + 1
      in msg @ str '': line '' @ show_nat lineno @ str '' column '' @ show_nat colno
           @ str '' (char '' @ show_nat pos @ str '')'')"

definition json_loads :: "pystr \<Rightarrow> exn + json" where
  "json_loads s =
     (if prefix [65279] s
      then Inl (JSONDecodeError (errmsg (str ''Unexpected UTF-8 BOM (decode using utf-8-sig)'') s 0))
      else
        (case scan_once (2 * length s + 2) (skip_ws s) of
           DecodeErr m k \<Rightarrow> Inl (JSONDecodeError (errmsg m s (length s - k)))
         | ValueErr m \<Rightarrow> Inl (OtherException m)
         | Ok v r \<Rightarrow>
             if skip_ws r = [] then Inr v
             else Inl (JSONDecodeError
                    (errmsg (str ''Extra data'') s (length s - length (skip_ws r))))))"

text \<open>
  \<open>json_loads\<close> follows the decoder CPython runs (the scanner, \<open>scanstring\<close>, the
  object and array loops, \<open>JSONDecodeError\<close> with its line and column), its messages
  as of CPython 3.11. The first argument of the three mutually recursive functions
  bounds the number of nested calls; no text needs more than twice its length plus two,
  and the interpreter's own recursion limit is not modelled. The theorems about
  \<open>parse_ai_response\<close> hold for every decoder; \<open>json_loads\<close> is the one the witnesses
  and counterexamples run.
\<close>

section \<open>The orchestrator: \<open>home\<close>\<close>

subsection \<open>Truth values\<close>

text \<open>
  A float read from a decimal literal is zero exactly when the literal's value is at
  most \<open>2^-1075\<close> in magnitude, half the smallest subnormal double (ties go to the
  even neighbour, which is zero).
\<close>

definition float_is_zero :: "pystr \<Rightarrow> bool" where
  "float_is_zero t =
     (let u = (if prefix [45] t then tl t else t);
          ip = takeWhile is_digit u;
          r1 = dropWhile is_digit u;
          fp = (if prefix [46] r1 then takeWhile is_digit (tl r1) else []);
          r2 = (if prefix [46] r1 then dropWhile is_digit (tl r1) else r1);
          m = nat_of_digits (ip @ fp);
          e = (if r2 = [] then 0
               else if prefix [45] (tl r2) then - int (nat_of_digits (tl (tl r2)))
               else if prefix [43] (tl r2) then int (nat_of_digits (tl (tl r2)))
               else int (nat_of_digits (tl r2)));
          k = e - int (length fp)
      in if ip = [] then False
         else m = 0 \<or> (k < 0 \<and> m * 2 ^ 1075 \<le> 10 ^ nat (- k)))"

fun py_truthy :: "json \<Rightarrow> bool" where
  "py_truthy JNull = False"
| "py_truthy (JBool b) = b"
| "py_truthy (JInt i) = (i \<noteq> 0)"
| "py_truthy (JFloat t) = (\<not> float_is_zero t)"
| "py_truthy (JStr s) = (s \<noteq> [])"
| "py_truthy (JArr xs) = (xs \<noteq> [])"
| "py_truthy (JObj kvs) = (kvs \<noteq> [])"

subsection \<open>Requests, the client and the context\<close>

text \<open>
  \<open>POST\<close> is \<open>request.POST.get\<close>. A call of \<open>client.chat.completions.create\<close> either
  raises or returns the message contents of the reply's choices; the \<open>chat_request\<close>
  is what it is called with. \<open>None\<close> in \<open>GROQ_API_KEY\<close> and \<open>client\<close> is Python's
  \<open>None\<close>.
\<close>

record request =
  "method" :: pystr
  POST :: "pystr \<Rightarrow> pystr option"

record chat_request =
  model :: pystr
  messages :: "(pystr \<times> pystr) list"
  temperature :: json
  max_tokens :: json
  top_p :: json

type_synonym groq = "chat_request \<Rightarrow> exn + pystr option list"

record config =
  GROQ_API_KEY :: "pystr option"
  client :: "groq option"

record "context" =
  user_code :: pystr
  ai_result :: "json option"
  error :: "json option"
  debug :: "pystr option"

definition exn_str :: "exn \<Rightarrow> pystr" where
  "exn_str e = (case e of JSONDecodeError m \<Rightarrow> m | OtherException m \<Rightarrow> m)"

definition cross :: pystr where
  "cross = [10060]"

definition quoted :: "string \<Rightarrow> pystr" where
  "quoted cs = [34] @ str cs @ [34]"

definition prompt :: "pystr \<Rightarrow> pystr" where
  "prompt code = concat (map (\<lambda>l. l @ [10])
     [str ''You are an expert code reviewer. Analyze the following code and provide feedback in STRICT JSON format.'',
      [],
      str ''IMPORTANT: Return ONLY valid JSON with these exact keys:'',
      str ''- syntax_errors (array of strings)'',
      str ''- logical_errors (array of strings) '',
      str ''- key_improvements (array of strings)'',
      str ''- fixed_code (string with corrected code)'',
      str ''- explanation (string with detailed explanation)'',
      [],
      str ''Code to review:'',
      [],
      code,
      [],
      str ''Return JSON in this exact format (no additional text):'',
      str ''{'',
      str ''  '' @ quoted ''syntax_errors'' @ str '': ['' @ quoted ''error1'' @ str '', ''
        @ quoted ''error2'' @ str '', ...],'',
      str ''  '' @ quoted ''logical_errors'' @ str '': ['' @ quoted ''error1'' @ str '', ''
        @ quoted ''error2'' @ str '', ...],'',
      str ''  '' @ quoted ''key_improvements'' @ str '': ['' @ quoted ''improvement1'' @ str '', ''
        @ quoted ''improvement2'' @ str '', ...],'',
      str ''  '' @ quoted ''fixed_code'' @ str '': '' @ quoted ''corrected code here'' @ str '','',
      str ''  '' @ quoted ''explanation'' @ str '': '' @ quoted ''detailed explanation here''])
     @ str ''}''"

definition review_call :: "pystr \<Rightarrow> chat_request" where
  "review_call code =
     \<lparr>model = str ''llama-3.3-70b-versatile'',
      messages =
        [(str ''system'', str (''You are an expert code reviewer specializing in Python, JavaScript, Java, C++, ''
            @ ''and other programming languages. Always return valid JSON format without any ''
            @ ''additional text or markdown formatting.'')),
         (str ''user'', prompt code)],
      temperature = JFloat (str ''0.1''),
      max_tokens = JInt 2000,
      top_p = JFloat (str ''0.9'')\<rparr>"

text \<open>The \<open>except Exception\<close> branch; \<open>format_exc\<close> is \<open>traceback.format_exc\<close>.\<close>

definition api_error :: "(exn \<Rightarrow> pystr) \<Rightarrow> pystr \<Rightarrow> exn \<Rightarrow> context" where
  "api_error format_exc code e =
     \<lparr>user_code = code,
      ai_result = Some (JObj
        [(str ''error'', JStr (str ''API Error: '' @ exn_str e)),
         (str ''raw'', JStr (str ''Unable to get AI response.'')),
         (str ''syntax_errors'', JArr []),
         (str ''logical_errors'', JArr []),
         (str ''key_improvements'', JArr []),
         (str ''fixed_code'', JStr []),
         (str ''explanation'', JStr [])]),
      error = Some (JStr (cross @ str '' API Error: '' @ exn_str e)),
      debug = Some (format_exc e)\<rparr>"

text \<open>What follows the call inside the \<open>try\<close>: \<open>choices[0]\<close>, the normalizer, and
  \<open>if "error" in ai_result and ai_result["error"]\<close>.\<close>

definition after_call :: "(pystr \<Rightarrow> exn + json) \<Rightarrow> pystr \<Rightarrow> pystr option list \<Rightarrow> exn + context" where
  "after_call loads code choices =
     (case choices of
        [] \<Rightarrow> Inl (OtherException (str ''list index out of range''))
      | ai_output # _ \<Rightarrow>
          (let res = parse_ai_response loads ai_output;
               ctx = \<lparr>user_code = code, ai_result = Some res, error = None, debug = None\<rparr>
           in case py_in (str ''error'') res of
                Inl e \<Rightarrow> Inl e
              | Inr False \<Rightarrow> Inr ctx
              | Inr True \<Rightarrow>
                  (case py_getitem res (str ''error'') of
                     Inl e \<Rightarrow> Inl e
                   | Inr v \<Rightarrow> Inr (if py_truthy v then ctx\<lparr>error := Some v\<rparr> else ctx))))"

text \<open>The body of the \<open>try\<close>: the call, then what follows it.\<close>

definition try_block :: "(pystr \<Rightarrow> exn + json) \<Rightarrow> groq \<Rightarrow> pystr \<Rightarrow> exn + context" where
  "try_block loads create code =
     (case create (review_call code) of
        Inl e \<Rightarrow> Inl e
      | Inr choices \<Rightarrow> after_call loads code choices)"

text \<open>\<open>not GROQ_API_KEY or not client\<close> is false.\<close>

definition api_configured :: "config \<Rightarrow> bool" where
  "api_configured cfg =
     (case (GROQ_API_KEY cfg, client cfg) of (Some (_ # _), Some _) \<Rightarrow> True | _ \<Rightarrow> False)"

text \<open>
  \<open>home\<close> returns the context it hands to \<open>render\<close> and the calls it made to the
  client, in order. The prompt is built and the client called once, at the start of
  the \<open>try\<close>, and nothing before the call can raise.
\<close>

definition home ::
    "(pystr \<Rightarrow> exn + json) \<Rightarrow> (exn \<Rightarrow> pystr) \<Rightarrow> config \<Rightarrow> request \<Rightarrow> context \<times> chat_request list" where
  "home loads format_exc cfg req =
     (if method req = str ''POST'' then
        (let code = strip (case POST req (str ''code'') of None \<Rightarrow> [] | Some c \<Rightarrow> c);
             ctx = \<lparr>user_code = code, ai_result = None, error = None, debug = None\<rparr>
         in if code = [] then
              (ctx\<lparr>error := Some (JStr (cross @ str '' Please enter some code to review.''))\<rparr>, [])
            else
              (case (GROQ_API_KEY cfg, client cfg) of
                 (Some (_ # _), Some create) \<Rightarrow>
                   (case try_block loads create code of
                      Inl e \<Rightarrow> (api_error format_exc code e, [review_call code])
                    | Inr ctx' \<Rightarrow> (ctx', [review_call code]))
               | _ \<Rightarrow>
                   (ctx\<lparr>error := Some (JStr
                      (cross @ str '' API key not configured. Please check your .env file.''))\<rparr>, [])))
      else (\<lparr>user_code = [], ai_result = None, error = None, debug = None\<rparr>, []))"

section \<open>Evaluating the decoder\<close>

lemmas scan_once_numeral =
  scan_once.simps(2)[of "pred_numeral k" for k, unfolded numeral_eq_Suc[symmetric]]

lemmas parse_array_numeral =
  parse_array.simps(2)[of "pred_numeral k" for k, unfolded numeral_eq_Suc[symmetric]]

lemmas parse_object_numeral =
  parse_object.simps(2)[of "pred_numeral k" for k, unfolded numeral_eq_Suc[symmetric]]

lemmas json_eval = json_loads_def str_def skip_ws_def is_ws_def is_digit_def match_number_def
  match_int_def match_frac_def match_exp_def parse_int_def errmsg_def expecting_value_def
  expecting_comma_def expecting_colon_def expecting_name_def unterminated_def
  invalid_escape_def invalid_uXXXX_def backslash_def hexval_def nat_of_digits_def
  scan_once_numeral parse_array_numeral parse_object_numeral

section \<open>Properties of the normalizer\<close>

lemma map_of_dict_set: "map_of (dict_set k v kvs) = (map_of kvs)(k \<mapsto> v)"
  by (induction kvs) (auto simp: fun_eq_iff)

lemma in_keys_iff: "k \<in> set (map fst kvs) \<longleftrightarrow> map_of kvs k \<noteq> None"
  by (induction kvs) auto

lemma fill_defaults_obj:
  "\<exists>kvs'. fill_defaults ks (JObj kvs) = Inr (JObj kvs') \<and>
     (\<forall>k. map_of kvs' k =
        (case map_of kvs k of
           Some v \<Rightarrow> Some v
         | None \<Rightarrow> if k \<in> set ks then Some (default_for k) else None))"
proof (induction ks arbitrary: kvs)
  case Nil
  show ?case by (auto split: option.splits)
next
  case (Cons key ks)
  show ?case
  proof (cases "key \<in> set (map fst kvs)")
    case True
    then have "map_of kvs key \<noteq> None"
      unfolding in_keys_iff .
    then obtain v where v: "map_of kvs key = Some v"
      by auto
    from Cons.IH[of kvs] obtain kvs' where
      k: "fill_defaults ks (JObj kvs) = Inr (JObj kvs')"
         "\<forall>k. map_of kvs' k = (case map_of kvs k of Some v \<Rightarrow> Some v
            | None \<Rightarrow> if k \<in> set ks then Some (default_for k) else None)"
      by blast
    have "fill_defaults (key # ks) (JObj kvs) = Inr (JObj kvs')"
      using True k(1) by simp
    moreover have "\<forall>k. map_of kvs' k = (case map_of kvs k of Some v \<Rightarrow> Some v
            | None \<Rightarrow> if k \<in> set (key # ks) then Some (default_for k) else None)"
      using k(2) v by (auto split: option.splits)
    ultimately show ?thesis by blast
  next
    case False
    then have n: "map_of kvs key = None"
      unfolding in_keys_iff by simp
    from Cons.IH[of "dict_set key (default_for key) kvs"] obtain kvs' where
      k: "fill_defaults ks (JObj (dict_set key (default_for key) kvs)) = Inr (JObj kvs')"
         "\<forall>k. map_of kvs' k = (case map_of (dict_set key (default_for key) kvs) k of Some v \<Rightarrow> Some v
            | None \<Rightarrow> if k \<in> set ks then Some (default_for k) else None)"
      by blast
    have "fill_defaults (key # ks) (JObj kvs) = Inr (JObj kvs')"
      using False k(1) by simp
    moreover have "\<forall>k. map_of kvs' k = (case map_of kvs k of Some v \<Rightarrow> Some v
            | None \<Rightarrow> if k \<in> set (key # ks) then Some (default_for k) else None)"
      using k(2) n by (auto simp: map_of_dict_set split: option.splits)
    ultimately show ?thesis by blast
  qed
qed

lemma default_for_expected:
  "default_for (str ''syntax_errors'') = JArr []"
  "default_for (str ''logical_errors'') = JArr []"
  "default_for (str ''key_improvements'') = JArr []"
  "default_for (str ''fixed_code'') = JStr []"
  "default_for (str ''explanation'') = JStr []"
  by (simp_all add: default_for_def str_def)

lemma parse_ai_response_obj:
  assumes "loads (clean_content s) = Inr (JObj kvs)"
  shows "\<exists>kvs'. parse_ai_response loads (Some s) = JObj kvs' \<and>
     (\<forall>k. map_of kvs' k =
        (case map_of kvs k of
           Some v \<Rightarrow> Some v
         | None \<Rightarrow> if k \<in> set expected_keys then Some (default_for k) else None))"
  using fill_defaults_obj[of expected_keys kvs] assms
  by (auto simp: parse_ai_response_def try_body_def)

text \<open>
  C1: when the text handed to the decoder decodes to a JSON object, every key of that
  object comes back with the value it had, each of \<open>syntax_errors\<close>,
  \<open>logical_errors\<close>, \<open>key_improvements\<close> that is absent is filled with the empty
  list, each of \<open>fixed_code\<close>, \<open>explanation\<close> that is absent with the empty string,
  and no other key appears.
\<close>

theorem C1_fills_absent_keys:
  assumes "loads (clean_content s) = Inr (JObj kvs)"
  shows "field (parse_ai_response loads (Some s)) k =
     (case map_of kvs k of
        Some v \<Rightarrow> Some v
      | None \<Rightarrow>
          if k = str ''syntax_errors'' \<or> k = str ''logical_errors'' \<or> k = str ''key_improvements''
          then Some (JArr [])
          else if k = str ''fixed_code'' \<or> k = str ''explanation'' then Some (JStr [])
          else None)"
proof -
  from parse_ai_response_obj[of loads s kvs] assms obtain kvs' where
    r: "parse_ai_response loads (Some s) = JObj kvs'" and
    m: "\<And>k. map_of kvs' k = (case map_of kvs k of Some v \<Rightarrow> Some v
          | None \<Rightarrow> if k \<in> set expected_keys then Some (default_for k) else None)"
    by blast
  show ?thesis
    unfolding r field.simps m
    by (auto simp: expected_keys_def default_for_expected split: option.splits)
qed

lemmas clean_eval = clean_content_def strip_def lstrip_def rstrip_def isspace_def slice_def
  fence_def fence_json_def Let_def

theorem C1_fills_absent_keys_witness:
  "json_loads (clean_content ([32, 32, 96, 96, 96] @ str ''json'' @ [10, 123, 34] @ str ''explanation''
        @ [34, 58, 34] @ str ''ok'' @ [34, 125, 10, 96, 96, 96, 32, 32]))
     = Inr (JObj [(str ''explanation'', JStr (str ''ok''))])
   \<and> field (parse_ai_response json_loads
        (Some ([32, 32, 96, 96, 96] @ str ''json'' @ [10, 123, 34] @ str ''explanation''
        @ [34, 58, 34] @ str ''ok'' @ [34, 125, 10, 96, 96, 96, 32, 32]))) (str ''syntax_errors'')
     = Some (JArr [])
   \<and> field (parse_ai_response json_loads
        (Some ([32, 32, 96, 96, 96] @ str ''json'' @ [10, 123, 34] @ str ''explanation''
        @ [34, 58, 34] @ str ''ok'' @ [34, 125, 10, 96, 96, 96, 32, 32]))) (str ''explanation'')
     = Some (JStr (str ''ok''))"
proof -
  let ?inp = "[32, 32, 96, 96, 96] @ str ''json'' @ [10, 123, 34] @ str ''explanation''
        @ [34, 58, 34] @ str ''ok'' @ [34, 125, 10, 96, 96, 96, 32, 32]"
  have c: "clean_content ?inp = [123, 34] @ str ''explanation'' @ [34, 58, 34] @ str ''ok'' @ [34, 125]"
    by (simp add: clean_eval str_def)
  have h: "json_loads (clean_content ?inp) = Inr (JObj [(str ''explanation'', JStr (str ''ok''))])"
    unfolding c by (simp add: json_eval)
  show ?thesis
    using h
      C1_fills_absent_keys[of json_loads ?inp "[(str ''explanation'', JStr (str ''ok''))]"
        "str ''syntax_errors''"]
      C1_fills_absent_keys[of json_loads ?inp "[(str ''explanation'', JStr (str ''ok''))]"
        "str ''explanation''"]
    by (simp add: str_def)
qed

section \<open>Trimming and fences\<close>

lemma strip_padded:
  assumes "\<forall>c\<in>set a. isspace c" and "\<forall>c\<in>set b. isspace c"
    and "t \<noteq> []" and "\<not> isspace (hd t)" and "\<not> isspace (last t)"
  shows "strip (a @ t @ b) = t"
proof -
  from assms(3) obtain x t' where t: "t = x # t'"
    by (cases t) auto
  have "dropWhile isspace (a @ t @ b) = dropWhile isspace (t @ b)"
    by (rule dropWhile_append2) (use assms(1) in auto)
  then have l: "lstrip (a @ t @ b) = t @ b"
    using assms(4) t by (simp add: lstrip_def)
  have "dropWhile isspace (rev b @ rev t) = dropWhile isspace (rev t)"
    by (rule dropWhile_append2) (use assms(2) in auto)
  moreover have "dropWhile isspace (rev t) = rev t"
    using assms(3,5) by (cases "rev t") (auto simp: last_rev [symmetric] hd_rev)
  ultimately show ?thesis
    using l by (simp add: strip_def rstrip_def)
qed

lemma strip_all_space:
  assumes "\<forall>c\<in>set s. isspace c"
  shows "strip s = []"
proof -
  have "dropWhile isspace s = []"
    using assms by (induction s) auto
  then have "lstrip s = []"
    by (simp add: lstrip_def)
  then show ?thesis
    by (simp add: strip_def rstrip_def)
qed

lemma backtick_not_space: "\<not> isspace 96"
  by (simp add: isspace_def)

lemma slice_fenced: "slice n 3 (f @ p @ t) = p" if "length f = n" and "length t = 3"
  using that by (simp add: slice_def)

lemma json_prefix_short:
  assumes "\<not> prefix (str ''json'') s"
  shows "\<not> prefix (str ''json'') (s @ [96, 96, 96])"
proof
  assume "prefix (str ''json'') (s @ [96, 96, 96])"
  with assms obtain us where us: "str ''json'' = s @ us" "prefix us [96, 96, 96]"
    by (auto simp: prefix_append)
  have "us \<noteq> []"
    using us(1) assms by auto
  with us(2) obtain us' where "us = 96 # us'"
    by (cases us) auto
  with us(1) have "96 \<in> set (str ''json'')"
    by simp
  then show False
    by (simp add: str_def)
qed

lemma not_fence_json: "\<not> prefix fence c \<Longrightarrow> \<not> prefix fence_json c"
  unfolding fence_json_def fence_def by (blast dest: append_prefixD)

lemma clean_content_unfenced:
  "\<not> prefix fence (strip s) \<Longrightarrow> clean_content s = strip s"
  by (simp add: clean_content_def Let_def not_fence_json)

lemma clean_content_wrapped_json:
  assumes "\<forall>c\<in>set a. isspace c" and "\<forall>c\<in>set b. isspace c"
  shows "clean_content (a @ fence_json @ s @ fence @ b) = strip s"
proof -
  have "strip (a @ (fence_json @ s @ fence) @ b) = fence_json @ s @ fence"
    using assms by (intro strip_padded) (simp_all add: fence_json_def fence_def backtick_not_space)
  then have c: "strip (a @ fence_json @ s @ fence @ b) = fence_json @ s @ fence"
    by simp
  have "slice 7 3 (fence_json @ s @ fence) = s"
    by (rule slice_fenced) (simp_all add: fence_def fence_json_def str_def)
  then show ?thesis
    by (simp add: clean_content_def c)
qed

lemma clean_content_wrapped_plain:
  assumes "\<forall>c\<in>set a. isspace c" and "\<forall>c\<in>set b. isspace c"
    and "\<not> prefix (str ''json'') s"
  shows "clean_content (a @ fence @ s @ fence @ b) = strip s"
proof -
  have "strip (a @ (fence @ s @ fence) @ b) = fence @ s @ fence"
    using assms(1,2) by (intro strip_padded) (simp_all add: fence_def backtick_not_space)
  then have c: "strip (a @ fence @ s @ fence @ b) = fence @ s @ fence"
    by simp
  have n: "\<not> prefix fence_json (fence @ s @ fence)"
    using json_prefix_short[OF assms(3)] by (simp add: fence_json_def fence_def)
  have "slice 3 3 (fence @ s @ fence) = s"
    by (rule slice_fenced) (simp_all add: fence_def)
  then show ?thesis
    using n by (simp add: clean_content_def c)
qed

lemma field_error_result:
  "field (error_result msg raw) k =
     (if k = str ''error'' then Some (JStr msg)
      else if k = str ''raw'' then Some (case raw of None \<Rightarrow> JNull | Some s \<Rightarrow> JStr s)
      else if k = str ''syntax_errors'' \<or> k = str ''logical_errors'' \<or> k = str ''key_improvements''
      then Some (JArr [])
      else if k = str ''fixed_code'' \<or> k = str ''explanation'' then Some (JStr [])
      else None)"
  by (simp add: error_result_def str_def)

lemma parse_ai_response_cases:
  "parse_ai_response loads (Some s) =
     (case try_body loads (Some s) of
        Inr d \<Rightarrow> d
      | Inl e \<Rightarrow>
          error_result
            ((case e of JSONDecodeError _ \<Rightarrow> str ''Failed to parse AI response as JSON: ''
              | OtherException _ \<Rightarrow> str ''Unexpected error: '') @ exn_str e) (Some s))"
  by (simp add: parse_ai_response_def exn_str_def split: sum.splits exn.splits)

lemma try_body_same:
  "clean_content w = clean_content s \<Longrightarrow> try_body loads (Some w) = try_body loads (Some s)"
  by (simp add: try_body_def)

lemma same_text_same_result:
  assumes "clean_content w = clean_content s"
  shows "(case try_body loads (Some s) of
            Inr d \<Rightarrow> parse_ai_response loads (Some w) = parse_ai_response loads (Some s)
          | Inl e \<Rightarrow>
              field (parse_ai_response loads (Some w)) (str ''raw'') = Some (JStr w)
              \<and> field (parse_ai_response loads (Some s)) (str ''raw'') = Some (JStr s))
         \<and> (\<forall>k. k \<noteq> str ''raw'' \<longrightarrow>
               field (parse_ai_response loads (Some w)) k = field (parse_ai_response loads (Some s)) k)"
  using try_body_same[OF assms, of loads]
  by (auto simp: parse_ai_response_cases field_error_result str_def split: sum.splits)

text \<open>
  C2, as the code has it: let \<open>s\<close> be a text whose trimmed form does not itself begin
  with a fence, and \<open>w\<close> be \<open>s\<close> between a leading \<open>```json\<close> (or a leading
  \<open>```\<close>, when \<open>s\<close> does not begin with \<open>json\<close>) and a trailing \<open>```\<close>, with any
  whitespace around. Then the decoder is given the same text for \<open>w\<close> and for \<open>s\<close>;
  when normalization of \<open>s\<close> succeeds the two results are equal, and when it fails they
  agree on every field but \<open>raw\<close>, which holds each call's own input.
\<close>

theorem C2_fenced_same_text:
  assumes "\<forall>c\<in>set a. isspace c" and "\<forall>c\<in>set b. isspace c"
    and "\<not> prefix fence (strip s)"
    and "w = a @ fence_json @ s @ fence @ b \<or> (w = a @ fence @ s @ fence @ b \<and> \<not> prefix (str ''json'') s)"
  shows "clean_content w = clean_content s
     \<and> (case try_body loads (Some s) of
            Inr d \<Rightarrow> parse_ai_response loads (Some w) = parse_ai_response loads (Some s)
          | Inl e \<Rightarrow>
              field (parse_ai_response loads (Some w)) (str ''raw'') = Some (JStr w)
              \<and> field (parse_ai_response loads (Some s)) (str ''raw'') = Some (JStr s))
     \<and> (\<forall>k. k \<noteq> str ''raw'' \<longrightarrow>
           field (parse_ai_response loads (Some w)) k = field (parse_ai_response loads (Some s)) k)"
proof -
  have "clean_content w = strip s"
    using assms(4) clean_content_wrapped_json[OF assms(1,2), of s]
      clean_content_wrapped_plain[OF assms(1,2), of s]
    by auto
  then have c: "clean_content w = clean_content s"
    using clean_content_unfenced[OF assms(3)] by simp
  from same_text_same_result[OF c, of loads] c show ?thesis
    by blast
qed

theorem C2_fenced_same_text_witness:
  "parse_ai_response json_loads (Some ([32] @ fence_json @ [10, 123, 125, 10] @ fence @ [10]))
     = parse_ai_response json_loads (Some [10, 123, 125, 10])
   \<and> clean_content ([32] @ fence_json @ [10, 123, 125, 10] @ fence @ [10]) = [123, 125]"
proof -
  have t: "try_body json_loads (Some [10, 123, 125, 10])
    = Inr (JObj [(str ''syntax_errors'', JArr []), (str ''logical_errors'', JArr []),
       (str ''key_improvements'', JArr []), (str ''fixed_code'', JStr []), (str ''explanation'', JStr [])])"
    by (simp add: try_body_def clean_eval json_eval expected_keys_def default_for_def)
  have c: "clean_content [10, 123, 125, 10] = [123, 125]"
    by (simp add: clean_eval)
  show ?thesis
    using C2_fenced_same_text[of "[32]" "[10]" "[10, 123, 125, 10]"
        "[32] @ fence_json @ [10, 123, 125, 10] @ fence @ [10]" json_loads] t c
    by (simp add: isspace_def strip_def lstrip_def rstrip_def fence_def)
qed

text \<open>
  The claim as stated fails on text that is not JSON: \<open>```jsonx```\<close> and \<open>x\<close> give
  results that differ in \<open>raw\<close>.
\<close>

theorem C2_fenced_counterexample:
  "parse_ai_response json_loads (Some ([96, 96, 96] @ str ''json'' @ [120, 96, 96, 96]))
     \<noteq> parse_ai_response json_loads (Some [120])"
  by (simp add: parse_ai_response_def try_body_def clean_eval json_eval error_result_def)

text \<open>
  C3, as the code has it: when the decoder rejects the cleaned text with a
  \<open>JSONDecodeError\<close>, the result carries \<open>error\<close>, the fixed prefix followed by the
  decoder's reason, \<open>raw\<close>, the input exactly as it was received (neither trimmed nor
  unfenced), and the five content fields at their empty defaults.
\<close>

theorem C3_decode_failure:
  assumes "loads (clean_content s) = Inl (JSONDecodeError m)"
  shows "field (parse_ai_response loads (Some s)) (str ''error'')
           = Some (JStr (str ''Failed to parse AI response as JSON: '' @ m))
     \<and> field (parse_ai_response loads (Some s)) (str ''raw'') = Some (JStr s)
     \<and> field (parse_ai_response loads (Some s)) (str ''syntax_errors'') = Some (JArr [])
     \<and> field (parse_ai_response loads (Some s)) (str ''logical_errors'') = Some (JArr [])
     \<and> field (parse_ai_response loads (Some s)) (str ''key_improvements'') = Some (JArr [])
     \<and> field (parse_ai_response loads (Some s)) (str ''fixed_code'') = Some (JStr [])
     \<and> field (parse_ai_response loads (Some s)) (str ''explanation'') = Some (JStr [])"
proof -
  have "parse_ai_response loads (Some s)
      = error_result (str ''Failed to parse AI response as JSON: '' @ m) (Some s)"
    using assms by (simp add: parse_ai_response_def try_body_def)
  then show ?thesis
    by (simp add: field_error_result) (simp add: str_def)
qed

theorem C3_decode_failure_witness:
  "json_loads (clean_content (str ''not json''))
     = Inl (JSONDecodeError (str ''Expecting value: line 1 column 1 (char 0)''))
   \<and> field (parse_ai_response json_loads (Some (str ''not json''))) (str ''error'')
     = Some (JStr (str ''Failed to parse AI response as JSON: Expecting value: line 1 column 1 (char 0)''))
   \<and> field (parse_ai_response json_loads (Some (str ''not json''))) (str ''raw'')
     = Some (JStr (str ''not json''))"
proof -
  have c: "clean_content (str ''not json'') = str ''not json''"
    by (simp add: clean_eval str_def)
  have h: "json_loads (clean_content (str ''not json''))
      = Inl (JSONDecodeError (str ''Expecting value: line 1 column 1 (char 0)''))"
    unfolding c by (simp add: json_eval)
  show ?thesis
    using h C3_decode_failure[of json_loads "str ''not json''"
        "str ''Expecting value: line 1 column 1 (char 0)''"]
    by (simp add: str_def)
qed

text \<open>
  The claim as stated fails on an input with surrounding whitespace: for a blank
  followed by \<open>x\<close> the decoder fails and \<open>raw\<close> keeps the blank.
\<close>

theorem C3_raw_counterexample:
  "json_loads (clean_content [32, 120])
     = Inl (JSONDecodeError (str ''Expecting value: line 1 column 1 (char 0)''))
   \<and> field (parse_ai_response json_loads (Some [32, 120])) (str ''raw'')
     \<noteq> Some (JStr (strip [32, 120]))"
proof -
  have c: "clean_content [32, 120] = [120]"
    by (simp add: clean_eval)
  have s: "strip [32, 120] = [120]"
    by (simp add: strip_def lstrip_def rstrip_def isspace_def)
  have h: "json_loads (clean_content [32, 120])
      = Inl (JSONDecodeError (str ''Expecting value: line 1 column 1 (char 0)''))"
    unfolding c by (simp add: json_eval)
  have "parse_ai_response json_loads (Some [32, 120])
      = error_result (str ''Failed to parse AI response as JSON: ''
          @ str ''Expecting value: line 1 column 1 (char 0)'') (Some [32, 120])"
    using h by (simp add: parse_ai_response_def try_body_def)
  then show ?thesis
    using h s by (simp add: field_error_result) (simp add: str_def)
qed

text \<open>
  C10: when the trimmed input is a fence marker, a payload \<open>p\<close> and three more
  characters \<open>t\<close>, whatever they are, the text handed to the decoder is the trimmed
  \<open>p\<close>: the last three characters are dropped without being looked at.
\<close>

theorem C10_last_three_dropped:
  assumes "strip s = f @ p @ t" and "length t = 3"
    and "f = fence_json \<or> (f = fence \<and> \<not> prefix (str ''json'') (p @ t))"
  shows "clean_content s = strip p
     \<and> try_body loads (Some s)
         = (case loads (strip p) of Inl e \<Rightarrow> Inl e | Inr d \<Rightarrow> fill_defaults expected_keys d)"
proof -
  have c: "clean_content s = strip p"
  proof (cases "f = fence_json")
    case True
    have "slice 7 3 (fence_json @ p @ t) = p"
      by (rule slice_fenced) (simp_all add: assms(2) fence_json_def str_def)
    then show ?thesis
      using assms(1) True by (simp add: clean_content_def)
  next
    case False
    with assms(3) have f: "f = fence" and n: "\<not> prefix (str ''json'') (p @ t)"
      by auto
    have "\<not> prefix fence_json (fence @ p @ t)"
      using n by (simp add: fence_json_def fence_def)
    moreover have "slice 3 3 (fence @ p @ t) = p"
      by (rule slice_fenced) (simp_all add: assms(2) fence_def)
    ultimately show ?thesis
      using assms(1) f by (simp add: clean_content_def)
  qed
  then show ?thesis
    by (simp add: try_body_def)
qed

theorem C10_last_three_dropped_witness:
  "strip (fence_json @ str ''[1]abc'') = fence_json @ str ''[1]'' @ str ''abc''
   \<and> clean_content (fence_json @ str ''[1]abc'') = str ''[1]''
   \<and> json_loads (clean_content (fence_json @ str ''[1]abc'')) = Inr (JArr [JInt 1])"
proof -
  have s: "strip (fence_json @ str ''[1]abc'') = fence_json @ str ''[1]'' @ str ''abc''"
    by (simp add: strip_def lstrip_def rstrip_def isspace_def fence_json_def str_def)
  have p: "strip (str ''[1]'') = str ''[1]''"
    by (simp add: strip_def lstrip_def rstrip_def isspace_def str_def)
  have j: "json_loads (str ''[1]'') = Inr (JArr [JInt 1])"
    by (simp add: json_eval)
  show ?thesis
    using C10_last_three_dropped[of "fence_json @ str ''[1]abc''" fence_json "str ''[1]''"
        "str ''abc''" json_loads] s p j
    by (simp add: str_def)
qed

section \<open>Decoded values that are not objects\<close>

lemma py_in_raises: "py_in k v = Inl e \<Longrightarrow> \<exists>m. e = OtherException m"
  by (cases v) auto

lemma py_setitem_non_obj:
  "(\<And>kvs. v \<noteq> JObj kvs) \<Longrightarrow> \<exists>m. py_setitem v k d = Inl (OtherException m)"
  by (cases v) auto

lemma fill_defaults_non_obj:
  assumes "\<And>kvs. v \<noteq> JObj kvs"
  shows "(fill_defaults ks v = Inr v \<and> (\<forall>k\<in>set ks. py_in k v = Inr True))
     \<or> (\<exists>m. fill_defaults ks v = Inl (OtherException m))"
proof (induction ks)
  case Nil
  show ?case by simp
next
  case (Cons key ks)
  show ?case
  proof (cases "py_in key v")
    case (Inl e)
    with py_in_raises[of key v e] show ?thesis
      by auto
  next
    case (Inr b)
    show ?thesis
    proof (cases b)
      case True
      with Inr Cons.IH show ?thesis
        by auto
    next
      case False
      with Inr py_setitem_non_obj[OF assms, of key "default_for key"] show ?thesis
        by auto
    qed
  qed
qed

text \<open>
  Every result is of one of two shapes: a dict with the five expected keys, or the
  decoded list or string itself, when each of the five names is an element of the
  list or a substring of the string.
\<close>

lemma parse_ai_response_shapes:
  "(\<exists>kvs. parse_ai_response loads x = JObj kvs \<and> (\<forall>k\<in>set expected_keys. map_of kvs k \<noteq> None))
   \<or> (\<exists>s v. x = Some s \<and> loads (clean_content s) = Inr v \<and> parse_ai_response loads x = v
         \<and> (\<forall>kvs. v \<noteq> JObj kvs) \<and> (\<forall>k\<in>set expected_keys. py_in k v = Inr True))"
proof -
  have e: "\<exists>kvs. error_result m x = JObj kvs \<and> (\<forall>k\<in>set expected_keys. map_of kvs k \<noteq> None)" for m
    by (simp add: error_result_def expected_keys_def str_def)
  show ?thesis
  proof (cases x)
    case None
    then show ?thesis
      using e by (simp add: parse_ai_response_def try_body_def)
  next
    case (Some s)
    show ?thesis
    proof (cases "loads (clean_content s)")
      case (Inl ex)
      then show ?thesis
        using e Some by (cases ex) (simp_all add: parse_ai_response_def try_body_def)
    next
      case (Inr v)
      show ?thesis
      proof (cases "\<exists>kvs. v = JObj kvs")
        case True
        then obtain kvs where v: "v = JObj kvs" by blast
        from parse_ai_response_obj[of loads s kvs] Inr v obtain kvs' where
          r: "parse_ai_response loads (Some s) = JObj kvs'" and
          m: "\<And>k. map_of kvs' k = (case map_of kvs k of Some v \<Rightarrow> Some v
                | None \<Rightarrow> if k \<in> set expected_keys then Some (default_for k) else None)"
          by blast
        have "\<forall>k\<in>set expected_keys. map_of kvs' k \<noteq> None"
          by (simp add: m split: option.splits)
        with r Some show ?thesis
          by blast
      next
        case False
        then have n: "\<And>kvs. v \<noteq> JObj kvs" by blast
        from fill_defaults_non_obj[OF n, of expected_keys] show ?thesis
        proof
          assume "fill_defaults expected_keys v = Inr v \<and> (\<forall>k\<in>set expected_keys. py_in k v = Inr True)"
          then show ?thesis
            using Some Inr n by (simp add: parse_ai_response_def try_body_def)
        next
          assume "\<exists>m. fill_defaults expected_keys v = Inl (OtherException m)"
          then show ?thesis
            using e Some Inr by (auto simp: parse_ai_response_def try_body_def)
        qed
      qed
    qed
  qed
qed

text \<open>
  C5 at the list of the five key names: the text decodes, every \<open>key not in
  parsed_data\<close> is false, and the list itself is returned: a result without fields.
\<close>

theorem C5_list_of_key_names:
  "parse_ai_response json_loads (Some ([91, 34] @ str ''syntax_errors'' @ [34, 44, 34]
      @ str ''logical_errors'' @ [34, 44, 34] @ str ''key_improvements'' @ [34, 44, 34]
      @ str ''fixed_code'' @ [34, 44, 34] @ str ''explanation'' @ [34, 93]))
     = JArr [JStr (str ''syntax_errors''), JStr (str ''logical_errors''),
         JStr (str ''key_improvements''), JStr (str ''fixed_code''), JStr (str ''explanation'')]
   \<and> field (parse_ai_response json_loads (Some ([91, 34] @ str ''syntax_errors'' @ [34, 44, 34]
      @ str ''logical_errors'' @ [34, 44, 34] @ str ''key_improvements'' @ [34, 44, 34]
      @ str ''fixed_code'' @ [34, 44, 34] @ str ''explanation'' @ [34, 93]))) (str ''syntax_errors'')
     = None"
proof -
  let ?inp = "[91, 34] @ str ''syntax_errors'' @ [34, 44, 34]
      @ str ''logical_errors'' @ [34, 44, 34] @ str ''key_improvements'' @ [34, 44, 34]
      @ str ''fixed_code'' @ [34, 44, 34] @ str ''explanation'' @ [34, 93]"
  have c: "clean_content ?inp = ?inp"
    by (simp add: clean_eval str_def)
  have h: "json_loads ?inp = Inr (JArr [JStr (str ''syntax_errors''), JStr (str ''logical_errors''),
         JStr (str ''key_improvements''), JStr (str ''fixed_code''), JStr (str ''explanation'')])"
    by (simp add: json_eval)
  have "parse_ai_response json_loads (Some ?inp)
     = JArr [JStr (str ''syntax_errors''), JStr (str ''logical_errors''),
         JStr (str ''key_improvements''), JStr (str ''fixed_code''), JStr (str ''explanation'')]"
    unfolding parse_ai_response_def try_body_def option.case c h
    by (simp add: expected_keys_def)
  then show ?thesis
    by simp
qed

text \<open>
  C9 at a JSON string that mentions the five key names: the text decodes to a string,
  every \<open>key not in parsed_data\<close> is a substring test that finds the name, and the
  decoded string is returned instead of the failure record.
\<close>

theorem C9_string_of_key_names:
  "parse_ai_response json_loads (Some ([34]
      @ str ''syntax_errors logical_errors key_improvements fixed_code explanation'' @ [34]))
     = JStr (str ''syntax_errors logical_errors key_improvements fixed_code explanation'')"
proof -
  let ?inp = "[34] @ str ''syntax_errors logical_errors key_improvements fixed_code explanation'' @ [34]"
  have c: "clean_content ?inp = ?inp"
    by (simp add: clean_eval str_def)
  have h: "json_loads ?inp
      = Inr (JStr (str ''syntax_errors logical_errors key_improvements fixed_code explanation''))"
    by (simp add: json_eval)
  show ?thesis
    unfolding parse_ai_response_def try_body_def option.case c h
    by (simp add: expected_keys_def str_def)
qed

section \<open>Properties of the orchestrator\<close>

lemma after_call_context:
  "after_call loads code choices = Inr ctx \<Longrightarrow>
     user_code ctx = code \<and> ai_result ctx \<noteq> None \<and> debug ctx = None"
  by (auto simp: after_call_def Let_def split: list.splits sum.splits bool.splits if_splits)

text \<open>
  C6: on a POST whose \<open>code\<close> field is missing, empty or made of whitespace only,
  \<open>home\<close> calls the client not at all and returns the context with the message asking
  for code, \<open>ai_result\<close> still \<open>None\<close>.
\<close>

theorem C6_empty_input:
  assumes "method req = str ''POST''"
    and "\<forall>c\<in>set (case POST req (str ''code'') of None \<Rightarrow> [] | Some c \<Rightarrow> c). isspace c"
  shows "home loads format_exc cfg req =
     (\<lparr>user_code = [], ai_result = None,
       error = Some (JStr (cross @ str '' Please enter some code to review.'')),
       debug = None\<rparr>, [])"
proof -
  have "strip (case POST req (str ''code'') of None \<Rightarrow> [] | Some c \<Rightarrow> c) = []"
    using assms(2) by (rule strip_all_space)
  then show ?thesis
    using assms(1) by (simp add: home_def)
qed

theorem C6_empty_input_witness:
  "home json_loads (\<lambda>e. str ''Traceback'')
     \<lparr>GROQ_API_KEY = Some (str ''key''), client = Some (\<lambda>c. Inr [Some (str ''{}'')])\<rparr>
     \<lparr>method = str ''POST'', POST = (\<lambda>k. if k = str ''code'' then Some [32, 10, 9] else None)\<rparr>
   = (\<lparr>user_code = [], ai_result = None,
       error = Some (JStr (cross @ str '' Please enter some code to review.'')),
       debug = None\<rparr>, [])"
  using C6_empty_input[of
      "\<lparr>method = str ''POST'', POST = (\<lambda>k. if k = str ''code'' then Some [32, 10, 9] else None)\<rparr>"
      json_loads "\<lambda>e. str ''Traceback''"
      "\<lparr>GROQ_API_KEY = Some (str ''key''), client = Some (\<lambda>c. Inr [Some (str ''{}'')])\<rparr>"]
  by (simp add: isspace_def)

text \<open>
  C7: on a POST, \<open>home\<close> is in exactly one of four states, decided in this order: the
  trimmed code is empty; the API is not configured; the \<open>try\<close> block raised; the
  \<open>try\<close> block finished. In the first two no call is made and the context carries the
  state's message; in the last two exactly one call is made.
\<close>

theorem C7_states_in_order:
  assumes "method req = str ''POST''"
    and "code = strip (case POST req (str ''code'') of None \<Rightarrow> [] | Some c \<Rightarrow> c)"
  shows "(code = [] \<longrightarrow>
            home loads format_exc cfg req =
              (\<lparr>user_code = code, ai_result = None,
                error = Some (JStr (cross @ str '' Please enter some code to review.'')),
                debug = None\<rparr>, []))
     \<and> (code \<noteq> [] \<and> \<not> api_configured cfg \<longrightarrow>
            home loads format_exc cfg req =
              (\<lparr>user_code = code, ai_result = None,
                error = Some (JStr
                  (cross @ str '' API key not configured. Please check your .env file.'')),
                debug = None\<rparr>, []))
     \<and> (code \<noteq> [] \<and> api_configured cfg \<longrightarrow>
            (\<exists>create. client cfg = Some create \<and>
               home loads format_exc cfg req =
                 (case try_block loads create code of
                    Inl e \<Rightarrow> (api_error format_exc code e, [review_call code])
                  | Inr ctx \<Rightarrow> (ctx, [review_call code]))))"
  using assms
  by (auto simp: home_def api_configured_def Let_def split: option.splits list.splits)

theorem C7_states_in_order_witness:
  "home json_loads (\<lambda>e. str ''Traceback'')
     \<lparr>GROQ_API_KEY = Some [], client = Some (\<lambda>c. Inr [Some (str ''{}'')])\<rparr>
     \<lparr>method = str ''POST'', POST = (\<lambda>k. if k = str ''code'' then Some (str '' x = 1 '') else None)\<rparr>
   = (\<lparr>user_code = str ''x = 1'', ai_result = None,
       error = Some (JStr (cross @ str '' API key not configured. Please check your .env file.'')),
       debug = None\<rparr>, [])"
proof -
  have s: "strip (str '' x = 1 '') = str ''x = 1''"
    by (simp add: strip_def lstrip_def rstrip_def isspace_def str_def)
  show ?thesis
    using C7_states_in_order[of
        "\<lparr>method = str ''POST'', POST = (\<lambda>k. if k = str ''code'' then Some (str '' x = 1 '') else None)\<rparr>"
        "str ''x = 1''" json_loads "\<lambda>e. str ''Traceback''"
        "\<lparr>GROQ_API_KEY = Some [], client = Some (\<lambda>c. Inr [Some (str ''{}'')])\<rparr>"] s
    by (simp add: api_configured_def) (simp add: str_def)
qed

text \<open>
  C8: on a POST with code and a configured API, when the call to the client raises,
  \<open>home\<close> returns, after that one call, the context whose \<open>error\<close> is the cross mark and
  \<open>API Error:\<close> followed by the exception's text, whose \<open>debug\<close> is the formatted
  traceback, and whose \<open>ai_result\<close> is the fallback record: \<open>error\<close> set, a fixed \<open>raw\<close>,
  the five content fields empty.
\<close>

theorem C8_call_failure:
  assumes "method req = str ''POST''"
    and "code = strip (case POST req (str ''code'') of None \<Rightarrow> [] | Some c \<Rightarrow> c)"
    and "code \<noteq> []"
    and "GROQ_API_KEY cfg = Some key" and "key \<noteq> []"
    and "client cfg = Some create"
    and "create (review_call code) = Inl e"
  shows "home loads format_exc cfg req =
     (\<lparr>user_code = code,
       ai_result = Some (JObj
         [(str ''error'', JStr (str ''API Error: '' @ exn_str e)),
          (str ''raw'', JStr (str ''Unable to get AI response.'')),
          (str ''syntax_errors'', JArr []),
          (str ''logical_errors'', JArr []),
          (str ''key_improvements'', JArr []),
          (str ''fixed_code'', JStr []),
          (str ''explanation'', JStr [])]),
       error = Some (JStr (cross @ str '' API Error: '' @ exn_str e)),
       debug = Some (format_exc e)\<rparr>, [review_call code])"
proof -
  from assms(5) obtain k ks where "key = k # ks"
    by (cases key) auto
  then show ?thesis
    using assms by (simp add: home_def try_block_def api_error_def Let_def)
qed

theorem C8_call_failure_witness:
  "home json_loads (\<lambda>e. str ''Traceback (most recent call last): ...'')
     \<lparr>GROQ_API_KEY = Some (str ''key''),
      client = Some (\<lambda>c. Inl (OtherException (str ''Connection error.'')))\<rparr>
     \<lparr>method = str ''POST'', POST = (\<lambda>k. if k = str ''code'' then Some [120] else None)\<rparr>
   = (\<lparr>user_code = [120],
       ai_result = Some (JObj
         [(str ''error'', JStr (str ''API Error: Connection error.'')),
          (str ''raw'', JStr (str ''Unable to get AI response.'')),
          (str ''syntax_errors'', JArr []),
          (str ''logical_errors'', JArr []),
          (str ''key_improvements'', JArr []),
          (str ''fixed_code'', JStr []),
          (str ''explanation'', JStr [])]),
       error = Some (JStr (cross @ str '' API Error: Connection error.'')),
       debug = Some (str ''Traceback (most recent call last): ...'')\<rparr>, [review_call [120]])"
proof -
  have s: "strip [120] = [120]"
    by (simp add: strip_def lstrip_def rstrip_def isspace_def)
  show ?thesis
    using C8_call_failure[of
        "\<lparr>method = str ''POST'', POST = (\<lambda>k. if k = str ''code'' then Some [120] else None)\<rparr>"
        "[120]"
        "\<lparr>GROQ_API_KEY = Some (str ''key''),
          client = Some (\<lambda>c. Inl (OtherException (str ''Connection error.'')))\<rparr>"
        "str ''key''" "\<lambda>c. Inl (OtherException (str ''Connection error.''))"
        "OtherException (str ''Connection error.'')" json_loads
        "\<lambda>e. str ''Traceback (most recent call last): ...''"] s
    by (simp add: exn_str_def) (simp add: str_def)
qed

text \<open>
  C4 at a reply that is an object with its own \<open>error\<close> key, \<open>{"error":"x"}\<close>: the text
  decodes and the five keys are filled in, nothing has failed, and the record
  returned has the \<open>error\<close> field all the same. \<open>home\<close>, which reads that field as the
  sign of a parsing error, then shows \<open>x\<close> as the error of the request.
\<close>

theorem C4_error_key_in_reply:
  "json_loads (clean_content ([123, 34] @ str ''error'' @ [34, 58, 34, 120, 34, 125]))
     = Inr (JObj [(str ''error'', JStr [120])])
   \<and> parse_ai_response json_loads (Some ([123, 34] @ str ''error'' @ [34, 58, 34, 120, 34, 125]))
     = JObj [(str ''error'', JStr [120]), (str ''syntax_errors'', JArr []),
         (str ''logical_errors'', JArr []), (str ''key_improvements'', JArr []),
         (str ''fixed_code'', JStr []), (str ''explanation'', JStr [])]
   \<and> field (parse_ai_response json_loads
        (Some ([123, 34] @ str ''error'' @ [34, 58, 34, 120, 34, 125]))) (str ''error'')
     = Some (JStr [120])
   \<and> home json_loads (\<lambda>e. str ''Traceback'')
        \<lparr>GROQ_API_KEY = Some (str ''key''),
         client = Some (\<lambda>c. Inr [Some ([123, 34] @ str ''error'' @ [34, 58, 34, 120, 34, 125])])\<rparr>
        \<lparr>method = str ''POST'', POST = (\<lambda>k. if k = str ''code'' then Some [120] else None)\<rparr>
     = (\<lparr>user_code = [120],
         ai_result = Some (JObj [(str ''error'', JStr [120]), (str ''syntax_errors'', JArr []),
           (str ''logical_errors'', JArr []), (str ''key_improvements'', JArr []),
           (str ''fixed_code'', JStr []), (str ''explanation'', JStr [])]),
         error = Some (JStr [120]),
         debug = None\<rparr>, [review_call [120]])"
proof -
  let ?inp = "[123, 34] @ str ''error'' @ [34, 58, 34, 120, 34, 125]"
  let ?res = "JObj [(str ''error'', JStr [120]), (str ''syntax_errors'', JArr []),
         (str ''logical_errors'', JArr []), (str ''key_improvements'', JArr []),
         (str ''fixed_code'', JStr []), (str ''explanation'', JStr [])]"
  have c: "clean_content ?inp = ?inp"
    by (simp add: clean_eval str_def)
  have h: "json_loads ?inp = Inr (JObj [(str ''error'', JStr [120])])"
    by (simp add: json_eval)
  have p: "parse_ai_response json_loads (Some ?inp) = ?res"
    unfolding parse_ai_response_def try_body_def option.case c h
    by (simp add: expected_keys_def default_for_def str_def)
  have s: "strip [120] = [120]"
    by (simp add: strip_def lstrip_def rstrip_def isspace_def)
  have k: "str ''key'' = 107 # str ''ey''"
    by (simp add: str_def)
  have "home json_loads (\<lambda>e. str ''Traceback'')
        \<lparr>GROQ_API_KEY = Some (str ''key''), client = Some (\<lambda>c. Inr [Some ?inp])\<rparr>
        \<lparr>method = str ''POST'', POST = (\<lambda>k. if k = str ''code'' then Some [120] else None)\<rparr>
     = (\<lparr>user_code = [120], ai_result = Some ?res, error = Some (JStr [120]), debug = None\<rparr>,
        [review_call [120]])"
    unfolding home_def try_block_def after_call_def k
    by (simp add: s p [simplified] Let_def)
  then show ?thesis
    using c h p by simp
qed

end
